theory Spec2Isabelle
  imports Main "HOL-Library.Char_ord" "HOL-Library.List_Lexorder" "HOL-Library.Product_Lexorder"
begin

section \<open>Python strings\<close>

text \<open>
  A Python \<open>str\<close> is modelled as a \<open>string\<close>: each \<open>char\<close> is one code point below 256.
  \<open>isspace\<close> is what \<open>str.strip()\<close> removes among these code points, \<open>lower_char\<close> what
  \<open>str.lower()\<close> does to one of them.
\<close>

definition newline :: char where
  "newline = CHR 0x0A"

definition isspace :: "char \<Rightarrow> bool" where
  "isspace c =
     (let n = (of_char c :: nat)
      in (9 \<le> n \<and> n \<le> 13) \<or> (28 \<le> n \<and> n \<le> 32) \<or> n = 133 \<or> n = 160)"

definition strip :: "string \<Rightarrow> string" where
  "strip s = rev (dropWhile isspace (rev (dropWhile isspace s)))"

definition lower_char :: "char \<Rightarrow> char" where
  "lower_char c =
     (let n = (of_char c :: nat)
      in if (65 \<le> n \<and> n \<le> 90) \<or> (192 \<le> n \<and> n \<le> 222 \<and> n \<noteq> 215)
         then char_of (n + 32) else c)"

definition lower :: "string \<Rightarrow> string" where
  "lower s = map lower_char s"

definition startswith :: "string \<Rightarrow> string \<Rightarrow> bool" where
  "startswith s p = (take (length p) s = p)"

definition endswith :: "string \<Rightarrow> string \<Rightarrow> bool" where
  "endswith s p = (length p \<le> length s \<and> drop (length s - length p) s = p)"

text \<open>\<open>sep.join(xs)\<close>.\<close>

fun join :: "string \<Rightarrow> string list \<Rightarrow> string" where
  "join sep [] = []"
| "join sep [x] = x"
| "join sep (x # y # ys) = x @ sep @ join sep (y # ys)"

text \<open>\<open>str(n)\<close> for a natural number: its decimal digits.\<close>

definition digit :: "nat \<Rightarrow> char" where
  "digit d = char_of (48 + d)"

function str_nat :: "nat \<Rightarrow> string" where
  "str_nat n = (if n < 10 then [digit n] else str_nat (n div 10) @ [digit (n mod 10)])"
  by pat_completeness auto
termination
  by (relation "measure id") auto

text \<open>\<open>s.rjust(width)\<close>: padded with spaces on the left.\<close>

definition rjust :: "string \<Rightarrow> nat \<Rightarrow> string" where
  "rjust s width = replicate (width - length s) CHR '' '' @ s"


section \<open>The command loop of \<open>CLI.run\<close> (cli.py)\<close>

text \<open>
  A call either returns or raises. \<open>Exception cls msg\<close> is an instance of \<open>Exception\<close> or
  of any subclass of it (\<open>cls\<close> its class name, \<open>msg\<close> what \<open>str(e)\<close> gives);
  \<open>KeyboardInterrupt\<close> is the interrupt; \<open>BaseException cls\<close> is any other exception
  that is not an \<open>Exception\<close> (\<open>SystemExit\<close>, \<open>GeneratorExit\<close>). These are the three
  classes the handlers of \<open>run\<close> tell apart.
\<close>

datatype exn = Exception string string | KeyboardInterrupt | BaseException string

text \<open>
  The collaborators of the loop (\<open>ContextManager\<close>, \<open>LLMClient\<close>, \<open>ConfigManager\<close>,
  \<open>PatchManager\<close>, the console) are parameters: for one pass of the loop, what each call
  returns or raises, as a function of its arguments. \<open>'m\<close> is the type of the message
  list, \<open>'r\<close> of the model's response; the loop only passes them on. An empty list stands
  for every falsy result of \<open>select_files\<close>.

  \<open>print_outcome\<close> is what \<open>print\<close> does with the message of success of an \<open>undo\<close> or
  a \<open>redo\<close>: it returns, or it raises (the console is closed, the interrupt arrives
  while the line is written). These two are the prints of the loop that stand inside a
  \<open>try\<close> between a call and the assignments that record it.
\<close>

record ('m, 'r) collaborators =
  input :: "exn + string"
  select_files :: "exn + string list"
  set_context_from_selector :: "string list \<Rightarrow> exn + unit"
  rollback :: "string \<Rightarrow> exn + unit"
  apply_patch :: "string \<Rightarrow> exn + unit"
  get_messages :: "string \<Rightarrow> exn + 'm"
  get_system_prompt :: "exn + string"
  send_prompt :: "'m \<Rightarrow> string \<Rightarrow> string \<Rightarrow> exn + 'r"
  generate_patch :: "'r \<Rightarrow> exn + string"
  print_outcome :: "string \<Rightarrow> exn + unit"

text \<open>
  What the \<open>FileSelector\<close> and the context do before the loop: \<open>selector_run\<close> is
  \<open>curses.wrapper(selector.run)\<close>, the files picked.
\<close>

record startup =
  load_gitignore :: "exn + unit"
  build_tree :: "exn + unit"
  selector_run :: "exn + string list"
  set_initial_context :: "string list \<Rightarrow> exn + unit"

text \<open>The calls made to the collaborators, with their arguments, in the order made.\<close>

datatype ('m, 'r) call =
    LoadGitignore
  | BuildTree
  | SelectorRun
  | SelectFiles
  | SetContextFromSelector "string list"
  | Rollback string
  | ApplyPatch string
  | GetMessages string
  | GetSystemPrompt
  | SendPrompt 'm string string
  | GeneratePatch 'r

text \<open>
  The object: its two history slots, and what it has done so far: the arguments of every
  \<open>print\<close>, and the calls to the collaborators. Files are written by the collaborators
  only, so a pass that adds no call to \<open>calls\<close> changes no file. An exception, the
  interrupt included, is raised at a call: by \<open>input\<close>, by a collaborator, or by the
  \<open>print\<close> of \<open>print_outcome\<close>. The assignments return, and so does every other
  \<open>print\<close>: none of them stands between a call and an assignment to a slot.
\<close>

record ('m, 'r) CLI =
  last_patch :: "string option"
  last_rolled_back_patch :: "string option"
  printed :: "string list"
  calls :: "('m, 'r) call list"

definition CLI_init :: "('m, 'r) CLI" where
  "CLI_init = \<lparr>last_patch = None, last_rolled_back_patch = None, printed = [], calls = []\<rparr>"

definition print :: "string \<Rightarrow> ('m, 'r) CLI \<Rightarrow> ('m, 'r) CLI" where
  "print line s = s\<lparr>printed := printed s @ [line]\<rparr>"

definition called :: "('m, 'r) call \<Rightarrow> ('m, 'r) CLI \<Rightarrow> ('m, 'r) CLI" where
  "called c s = s\<lparr>calls := calls s @ [c]\<rparr>"

text \<open>\<open>if self.last_patch:\<close> holds for a string that is not empty; \<open>None\<close> and \<open>""\<close> are falsy.\<close>

fun truthy :: "string option \<Rightarrow> bool" where
  "truthy None = False"
| "truthy (Some p) = (p \<noteq> [])"

text \<open>
  How a block ends: it falls through to the next pass of the loop, it leaves the loop
  (\<open>break\<close>), or it raises. Assignments made before a raise stay made, so the object is
  returned in every case.
\<close>

datatype flow = Next | Break | Raise exn

text \<open>The branch \<open>select\<close>.\<close>

definition select_command ::
  "('m, 'r) collaborators \<Rightarrow> ('m, 'r) CLI \<Rightarrow> flow \<times> ('m, 'r) CLI" where
  "select_command e s =
     (let s1 = called SelectFiles s in
      case select_files e of
        Inl x \<Rightarrow> (Raise x, s1)
      | Inr selected_files \<Rightarrow>
          if selected_files \<noteq> [] then
            (let s2 = called (SetContextFromSelector selected_files) s1 in
             case set_context_from_selector e selected_files of
               Inl x \<Rightarrow> (Raise x, s2)
             | Inr _ \<Rightarrow>
                 (Next, print (''Updated context with '' @ str_nat (length selected_files)
                               @ '' files.'') s2))
          else (Next, print ''File selection cancelled or no files selected.'' s1))"

text \<open>
  The branch \<open>undo\<close>. Its \<open>try\<close> holds the rollback, the \<open>print\<close> of the success and then
  the two assignments; its \<open>except Exception\<close> catches what either call raises.
\<close>

definition undo_command ::
  "('m, 'r) collaborators \<Rightarrow> ('m, 'r) CLI \<Rightarrow> flow \<times> ('m, 'r) CLI" where
  "undo_command e s =
     (case last_patch s of
        Some p \<Rightarrow>
          if p \<noteq> [] then
            (let s1 = called (Rollback p) s in
             case rollback e p of
               Inr _ \<Rightarrow>
                 (case print_outcome e ''Changes rolled back successfully.'' of
                    Inr _ \<Rightarrow>
                      (let s2 = print ''Changes rolled back successfully.'' s1;
                           s3 = s2\<lparr>last_rolled_back_patch := last_patch s2\<rparr>;
                           s4 = s3\<lparr>last_patch := None\<rparr>
                       in (Next, s4))
                  | Inl (Exception c m) \<Rightarrow>
                      (Next, print (''Error rolling back changes: '' @ m) s1)
                  | Inl x \<Rightarrow> (Raise x, s1))
             | Inl (Exception c m) \<Rightarrow> (Next, print (''Error rolling back changes: '' @ m) s1)
             | Inl x \<Rightarrow> (Raise x, s1))
          else (Next, print ''No changes to undo.'' s)
      | None \<Rightarrow> (Next, print ''No changes to undo.'' s))"

text \<open>The branch \<open>redo\<close>: the same shape, on the other slot, through \<open>apply_patch\<close>.\<close>

definition redo_command ::
  "('m, 'r) collaborators \<Rightarrow> ('m, 'r) CLI \<Rightarrow> flow \<times> ('m, 'r) CLI" where
  "redo_command e s =
     (case last_rolled_back_patch s of
        Some p \<Rightarrow>
          if p \<noteq> [] then
            (let s1 = called (ApplyPatch p) s in
             case apply_patch e p of
               Inr _ \<Rightarrow>
                 (case print_outcome e ''Changes reapplied successfully.'' of
                    Inr _ \<Rightarrow>
                      (let s2 = print ''Changes reapplied successfully.'' s1;
                           s3 = s2\<lparr>last_patch := last_rolled_back_patch s2\<rparr>;
                           s4 = s3\<lparr>last_rolled_back_patch := None\<rparr>
                       in (Next, s4))
                  | Inl (Exception c m) \<Rightarrow>
                      (Next, print (''Error reapplying changes: '' @ m) s1)
                  | Inl x \<Rightarrow> (Raise x, s1))
             | Inl (Exception c m) \<Rightarrow> (Next, print (''Error reapplying changes: '' @ m) s1)
             | Inl x \<Rightarrow> (Raise x, s1))
          else (Next, print ''No changes to redo.'' s)
      | None \<Rightarrow> (Next, print ''No changes to redo.'' s))"

text \<open>
  The last branch: any other text is an instruction for the model. The redo slot is
  cleared before the \<open>try\<close>; \<open>instruction_except\<close> is the \<open>except Exception\<close> of that
  \<open>try\<close>. The system prompt is an argument of \<open>send_prompt\<close>, so it is fetched first.
\<close>

definition instruction_except :: "exn \<Rightarrow> ('m, 'r) CLI \<Rightarrow> flow \<times> ('m, 'r) CLI" where
  "instruction_except x s =
     (case x of
        Exception c m \<Rightarrow> (Next, print (newline # ''Error: '' @ m) s)
      | _ \<Rightarrow> (Raise x, s))"

definition instruction ::
  "('m, 'r) collaborators \<Rightarrow> string \<Rightarrow> ('m, 'r) CLI \<Rightarrow> flow \<times> ('m, 'r) CLI" where
  "instruction e command s =
     (let s1 = s\<lparr>last_rolled_back_patch := None\<rparr>;
          s2 = called (GetMessages command) s1 in
      case get_messages e command of
        Inl x \<Rightarrow> instruction_except x s2
      | Inr messages \<Rightarrow>
     (let s3 = called GetSystemPrompt s2 in
      case get_system_prompt e of
        Inl x \<Rightarrow> instruction_except x s3
      | Inr system_prompt \<Rightarrow>
     (let s4 = called (SendPrompt messages command system_prompt) s3 in
      case send_prompt e messages command system_prompt of
        Inl x \<Rightarrow> instruction_except x s4
      | Inr response \<Rightarrow>
     (let s5 = called (GeneratePatch response) s4 in
      case generate_patch e response of
        Inl x \<Rightarrow> instruction_except x s5
      | Inr patch_path \<Rightarrow>
     (let s6 = called (ApplyPatch patch_path) s5 in
      case apply_patch e patch_path of
        Inl x \<Rightarrow> instruction_except x s6
      | Inr _ \<Rightarrow>
          (let s7 = s6\<lparr>last_patch := Some patch_path\<rparr>
           in (Next, print (newline # ''Changes applied successfully.'') s7)))))))"

text \<open>The body of the outer \<open>try\<close>: read the command, strip it, take the branch.\<close>

definition body ::
  "('m, 'r) collaborators \<Rightarrow> ('m, 'r) CLI \<Rightarrow> flow \<times> ('m, 'r) CLI" where
  "body e s =
     (case input e of
        Inl x \<Rightarrow> (Raise x, s)
      | Inr line \<Rightarrow>
          (let command = strip line in
           if lower command = ''exit'' then (Break, s)
           else if lower command = ''select'' then select_command e s
           else if lower command = ''undo'' then undo_command e s
           else if lower command = ''redo'' then redo_command e s
           else instruction e command s))"

text \<open>
  One pass of \<open>while True\<close>: the body under the two handlers of the outer \<open>try\<close>. An
  exception that is neither leaves \<open>run\<close>.
\<close>

definition iteration ::
  "('m, 'r) collaborators \<Rightarrow> ('m, 'r) CLI \<Rightarrow> flow \<times> ('m, 'r) CLI" where
  "iteration e s =
     (case body e s of
        (Raise KeyboardInterrupt, s') \<Rightarrow> (Next, print (newline # ''Operation cancelled.'') s')
      | (Raise (Exception c m), s') \<Rightarrow> (Next, print (''Error: '' @ m) s')
      | r \<Rightarrow> r)"

text \<open>
  The loop over a session: one record of collaborator results per pass. \<open>Next\<close> at the
  end says that the loop is still running, waiting for the next command; \<open>Break\<close> that
  \<open>exit\<close> ended it; \<open>Raise x\<close> that \<open>x\<close> left \<open>run\<close>.
\<close>

fun loop :: "('m, 'r) collaborators list \<Rightarrow> ('m, 'r) CLI \<Rightarrow> flow \<times> ('m, 'r) CLI" where
  "loop [] s = (Next, s)"
| "loop (e # es) s =
     (case iteration e s of
        (Next, s') \<Rightarrow> loop es s'
      | r \<Rightarrow> r)"

text \<open>
  The block before the loop. \<open>Break\<close> stands for its two \<open>return\<close>s, \<open>Next\<close> for
  reaching the loop. Its \<open>except Exception\<close> prints and returns.
\<close>

definition startup_except :: "exn \<Rightarrow> ('m, 'r) CLI \<Rightarrow> flow \<times> ('m, 'r) CLI" where
  "startup_except x s =
     (case x of
        Exception c m \<Rightarrow> (Break, print (''Error in file selection: '' @ m) s)
      | _ \<Rightarrow> (Raise x, s))"

definition commands_help :: string where
  "commands_help =
     ''Commands: 'exit' to quit, 'select' to choose files, 'undo' to rollback, 'redo' to reapply last undone patch''"

definition startup_block :: "startup \<Rightarrow> ('m, 'r) CLI \<Rightarrow> flow \<times> ('m, 'r) CLI" where
  "startup_block st s =
     (let s1 = called LoadGitignore s in
      case load_gitignore st of
        Inl x \<Rightarrow> startup_except x s1
      | Inr _ \<Rightarrow>
     (let s2 = called BuildTree s1 in
      case build_tree st of
        Inl x \<Rightarrow> startup_except x s2
      | Inr _ \<Rightarrow>
     (let s3 = called SelectorRun s2 in
      case selector_run st of
        Inl x \<Rightarrow> startup_except x s3
      | Inr selected_files \<Rightarrow>
          if selected_files = [] then (Break, print ''No files selected. Exiting.'' s3)
          else
           (let s4 = called (SetContextFromSelector selected_files) s3 in
            case set_initial_context st selected_files of
              Inl x \<Rightarrow> startup_except x s4
            | Inr _ \<Rightarrow>
               (let s5 = print (newline # ''Initialized context with ''
                                @ str_nat (length selected_files) @ '' files.'') s4
                in (Next, print commands_help s5))))))"

definition run ::
  "startup \<Rightarrow> ('m, 'r) collaborators list \<Rightarrow> ('m, 'r) CLI \<Rightarrow> flow \<times> ('m, 'r) CLI" where
  "run st es s =
     (let s1 = print (newline # ''Starting diffdev...'') s;
          s2 = print ''Select files to include in the context:'' s1 in
      case startup_block st s2 of
        (Next, s3) \<Rightarrow> loop es s3
      | r \<Rightarrow> r)"


section \<open>GitignoreParser (gitignore.py, and the same class in cli.py)\<close>

text \<open>
  \<open>fnmatch.fnmatch(name, pattern)\<close> of the standard library is a parameter of the model:
  what follows holds for every matcher.
\<close>

type_synonym matcher = "string \<Rightarrow> string \<Rightarrow> bool"

text \<open>The file at \<open>gitignore_path\<close>: absent, or its lines as iterating the file gives them.\<close>

datatype gitignore_file = Absent | Lines "string list"

record GitignoreParser =
  patterns :: "string list"

definition load_patterns :: "gitignore_file \<Rightarrow> GitignoreParser \<Rightarrow> GitignoreParser" where
  "load_patterns gitignore self =
     (case gitignore of
        Absent \<Rightarrow> self
      | Lines ls \<Rightarrow>
          fold (\<lambda>line self.
                  (let line = strip line in
                   if line \<noteq> [] \<and> \<not> startswith line ''#''
                   then self\<lparr>patterns := patterns self @ [line]\<rparr>
                   else self))
               ls self)"

definition GitignoreParser_init :: "gitignore_file \<Rightarrow> GitignoreParser" where
  "GitignoreParser_init gitignore = load_patterns gitignore \<lparr>patterns = []\<rparr>"

text \<open>\<open>os.path.basename\<close>: what follows the last slash.\<close>

definition basename :: "string \<Rightarrow> string" where
  "basename path = rev (takeWhile (\<lambda>c. c \<noteq> CHR ''/'') (rev path))"

text \<open>The loop of \<open>should_ignore\<close> over the patterns; \<open>pattern[:-1]\<close> is \<open>butlast\<close>.\<close>

fun should_ignore_loop :: "matcher \<Rightarrow> string list \<Rightarrow> string \<Rightarrow> bool" where
  "should_ignore_loop fnmatch [] path = False"
| "should_ignore_loop fnmatch (pattern # rest) path =
     (let pattern = (if endswith pattern ''/'' then butlast pattern else pattern) in
      if fnmatch path pattern \<or> fnmatch (basename path) pattern then True
      else should_ignore_loop fnmatch rest path)"

definition should_ignore :: "matcher \<Rightarrow> GitignoreParser \<Rightarrow> string \<Rightarrow> bool" where
  "should_ignore fnmatch self path = should_ignore_loop fnmatch (patterns self) path"


section \<open>ProjectTreeGenerator (tree_utils.py, and the same class in cli.py)\<close>

text \<open>
  What is on disk. Reading a file gives its lines, or fails to decode, or fails otherwise
  (with the message of the exception). An entry of a directory is a file, a directory
  with its entries in the order \<open>iterdir\<close> yields them, a directory that \<open>iterdir\<close>
  cannot list (either handler of \<open>generate_tree\<close> returns), or something that is neither
  a file nor a directory (a broken link, a socket). Each carries its name.
\<close>

datatype read_result = Text "string list" | UnicodeDecodeError | ReadError string

datatype node =
    File string read_result
  | Dir string "node list"
  | Unlistable string
  | Special string

fun name :: "node \<Rightarrow> string" where
  "name (File n _) = n"
| "name (Dir n _) = n"
| "name (Unlistable n) = n"
| "name (Special n) = n"

fun is_dir :: "node \<Rightarrow> bool" where
  "is_dir (Dir _ _) = True"
| "is_dir (Unlistable _) = True"
| "is_dir _ = False"

text \<open>
  A path is the list of its components below \<open>/\<close>, as \<open>resolve()\<close> leaves the one that
  \<open>copy_directory_contents\<close> passes in; \<open>str_path\<close> is \<open>str(path)\<close>.
\<close>

definition str_path :: "string list \<Rightarrow> string" where
  "str_path parts = (if parts = [] then ''/'' else concat (map (\<lambda>p. CHR ''/'' # p) parts))"

text \<open>\<open>FileContentFormatter.format_file_content\<close>, given what reading the file gives.\<close>

definition format_lines :: "string list \<Rightarrow> string" where
  "format_lines lines =
     (let padding = length (str_nat (length lines)) in
      concat (map (\<lambda>(i, line). rjust (str_nat (i + 1)) padding @ '' | '' @ line)
                  (enumerate 0 lines)))"

definition format_file_content :: "string \<Rightarrow> read_result \<Rightarrow> string" where
  "format_file_content file_path r =
     (case r of
        Text lines \<Rightarrow>
          (let separator = replicate 80 CHR ''-'' in
           [newline] @ file_path @ '':'' @ [newline]
           @ separator @ [newline]
           @ format_lines lines @ [newline]
           @ separator @ [newline])
      | UnicodeDecodeError \<Rightarrow> [newline] @ file_path @ '': [Binary file]'' @ [newline]
      | ReadError e \<Rightarrow>
          [newline] @ file_path @ '': [Error reading file: '' @ e @ '']'' @ [newline])"

text \<open>
  The object. \<open>output_lines\<close> is the attribute \<open>output\<close>. The three box-drawing characters
  of \<open>branch\<close>, \<open>last_branch\<close> and \<open>pipe\<close> lie beyond the code points of \<open>char\<close> and are
  held as their three UTF-8 bytes each; no claim depends on them.
\<close>

record ProjectTreeGenerator =
  root_path :: "string list"
  gitignore_parser :: "GitignoreParser option"
  output_lines :: "string list"
  file_contents :: "string list"
  indent :: string
  branch :: string
  last_branch :: string
  pipe :: string

definition ProjectTreeGenerator_init ::
  "string list \<Rightarrow> GitignoreParser option \<Rightarrow> ProjectTreeGenerator" where
  "ProjectTreeGenerator_init root parser =
     \<lparr>root_path = root, gitignore_parser = parser, output_lines = [], file_contents = [],
      indent = ''    '',
      branch = [CHR 0xE2, CHR 0x94, CHR 0x9C, CHR 0xE2, CHR 0x94, CHR 0x80,
                CHR 0xE2, CHR 0x94, CHR 0x80, CHR '' ''],
      last_branch = [CHR 0xE2, CHR 0x94, CHR 0x94, CHR 0xE2, CHR 0x94, CHR 0x80,
                     CHR 0xE2, CHR 0x94, CHR 0x80, CHR '' ''],
      pipe = [CHR 0xE2, CHR 0x94, CHR 0x82, CHR '' '', CHR '' '', CHR '' '']\<rparr>"

text \<open>
  \<open>should_skip\<close> of the entry \<open>entry_name\<close> of the directory \<open>root_path / directory\<close>:
  \<open>directory\<close> is the path of that directory relative to the root, so the entry's
  \<open>relative_to(root_path)\<close> is \<open>directory\<close> and then its name. A parser object is truthy.
\<close>

definition should_skip ::
  "matcher \<Rightarrow> ProjectTreeGenerator \<Rightarrow> string list \<Rightarrow> string \<Rightarrow> bool" where
  "should_skip fnmatch self directory entry_name =
     (if entry_name = ''.git'' then True
      else case gitignore_parser self of
             None \<Rightarrow> False
           | Some parser \<Rightarrow>
               should_ignore fnmatch parser (join ''/'' (directory @ [entry_name])))"

text \<open>\<open>sorted(..., key=lambda x: (not x.is_dir(), x.name.lower()))\<close>: a stable sort.\<close>

definition sort_entries :: "node list \<Rightarrow> node list" where
  "sort_entries entries = sort_key (\<lambda>x. (\<not> is_dir x, lower (name x))) entries"

text \<open>
  \<open>generate_tree\<close> on the directory \<open>root_path / directory\<close>, given what is on disk there.
  Only a directory that can be listed has entries; everywhere else \<open>iterdir\<close> raises and
  the method returns. The object is returned with its two lists extended.
\<close>

function generate_tree ::
  "matcher \<Rightarrow> ProjectTreeGenerator \<Rightarrow> string list \<Rightarrow> node \<Rightarrow> string
     \<Rightarrow> ProjectTreeGenerator" where
  "generate_tree fnmatch self directory (Dir dn children) prefix =
     (let entries = sort_entries children;
          entries = filter (\<lambda>e. \<not> should_skip fnmatch self directory (name e)) entries
      in fold (\<lambda>(i, entry) self.
                 (let is_last_entry = (int i = int (length entries) - 1);
                      current_prefix =
                        prefix @ (if is_last_entry then last_branch self else branch self);
                      self = self\<lparr>output_lines := output_lines self @ [current_prefix @ name entry]\<rparr>;
                      self =
                        (case entry of
                           File n r \<Rightarrow>
                             self\<lparr>file_contents := file_contents self @
                               [format_file_content
                                  (str_path (root_path self @ directory @ [n])) r]\<rparr>
                         | _ \<Rightarrow> self)
                  in if is_dir entry then
                       (let next_prefix =
                              prefix @ (if is_last_entry then indent self else pipe self)
                        in generate_tree fnmatch self (directory @ [name entry]) entry
                             next_prefix)
                     else self))
              (enumerate 0 entries) self)"
| "generate_tree fnmatch self directory (File n r) prefix = self"
| "generate_tree fnmatch self directory (Unlistable n) prefix = self"
| "generate_tree fnmatch self directory (Special n) prefix = self"
  by pat_completeness auto
termination
proof -
  have smaller: "size e < Suc (size_list size children)"
    if "(i, e) \<in> set (enumerate 0 (filter P (sort_entries children)))"
    for i :: nat and e :: node and P children
  proof -
    from that have "e \<in> snd ` set (enumerate 0 (filter P (sort_entries children)))"
      by force
    then have "e \<in> set (filter P (sort_entries children))"
      by (simp flip: set_map)
    then have "e \<in> set children"
      by (simp add: sort_entries_def)
    then have "size e \<le> size_list size children"
      by (rule size_list_estimation') simp
    then show ?thesis by simp
  qed
  show ?thesis
    by (relation "measure (\<lambda>(fnmatch, self, directory, nd, prefix). size nd)")
       (auto dest: smaller)
qed

text \<open>\<open>get_tree\<close>: the text, and the object as the call leaves it.\<close>

definition get_tree ::
  "matcher \<Rightarrow> ProjectTreeGenerator \<Rightarrow> node \<Rightarrow> string \<times> ProjectTreeGenerator" where
  "get_tree fnmatch self on_disk =
     (let self = self\<lparr>output_lines := []\<rparr>;
          self = self\<lparr>file_contents := []\<rparr>;
          self = generate_tree fnmatch self [] on_disk [];
          full_output =
            [newline # ''File Tree:'',
             join [newline] (output_lines self),
             newline # ''File Contents:'',
             concat (file_contents self)]
      in (join [newline] full_output, self))"


section \<open>Notions the properties use\<close>

text \<open>
  The two slots never hold the same patch: not both truthy and equal.
\<close>

definition slots_distinct :: "('m, 'r) CLI \<Rightarrow> bool" where
  "slots_distinct s =
     (\<not> (truthy (last_patch s) \<and> truthy (last_rolled_back_patch s)
          \<and> last_patch s = last_rolled_back_patch s))"

text \<open>A line that reaches the last branch of the loop: none of the four commands.\<close>

definition free_text :: "string \<Rightarrow> bool" where
  "free_text line = (lower (strip line) \<notin> set [''exit'', ''select'', ''undo'', ''redo''])"

text \<open>
  What the five calls of an instruction come to, taken in the order of the \<open>try\<close> block:
  the handle \<open>generate_patch\<close> returned when all five return, otherwise the first
  exception raised. The instruction succeeds end to end in the first case and fails in
  the second.
\<close>

definition instruction_result :: "('m, 'r) collaborators \<Rightarrow> string \<Rightarrow> exn + string" where
  "instruction_result e command =
     (case get_messages e command of
        Inl x \<Rightarrow> Inl x
      | Inr messages \<Rightarrow>
     (case get_system_prompt e of
        Inl x \<Rightarrow> Inl x
      | Inr system_prompt \<Rightarrow>
     (case send_prompt e messages command system_prompt of
        Inl x \<Rightarrow> Inl x
      | Inr response \<Rightarrow>
     (case generate_patch e response of
        Inl x \<Rightarrow> Inl x
      | Inr patch_path \<Rightarrow>
     (case apply_patch e patch_path of
        Inl x \<Rightarrow> Inl x
      | Inr _ \<Rightarrow> Inr patch_path)))))"

text \<open>The calls a pass added: those of \<open>s'\<close> after the ones \<open>s\<close> already had.\<close>

definition new_calls :: "('m, 'r) CLI \<Rightarrow> ('m, 'r) CLI \<Rightarrow> ('m, 'r) call list" where
  "new_calls s s' = drop (length (calls s)) (calls s')"

subsection \<open>Sample sessions\<close>

text \<open>
  \<open>answers line patch\<close>: the user types \<open>line\<close>, every collaborator returns, and
  \<open>generate_patch\<close> returns the handle \<open>patch\<close>. \<open>picks files\<close>: the file selector returns
  \<open>files\<close>. \<open>applied p\<close> and \<open>rolled_back p\<close>: the object with \<open>p\<close> in one slot.
\<close>

definition answers :: "string \<Rightarrow> string \<Rightarrow> (string, string) collaborators" where
  "answers line patch =
     \<lparr>input = Inr line, select_files = Inr [], set_context_from_selector = (\<lambda>_. Inr ()),
      rollback = (\<lambda>_. Inr ()), apply_patch = (\<lambda>_. Inr ()),
      get_messages = (\<lambda>c. Inr c), get_system_prompt = Inr ''system'',
      send_prompt = (\<lambda>m c sp. Inr ''response''), generate_patch = (\<lambda>r. Inr patch),
      print_outcome = (\<lambda>_. Inr ())\<rparr>"

definition picks :: "string list \<Rightarrow> startup" where
  "picks files =
     \<lparr>load_gitignore = Inr (), build_tree = Inr (), selector_run = Inr files,
      set_initial_context = (\<lambda>_. Inr ())\<rparr>"

definition applied :: "string \<Rightarrow> (string, string) CLI" where
  "applied p = \<lparr>last_patch = Some p, last_rolled_back_patch = None, printed = [], calls = []\<rparr>"

definition rolled_back :: "string \<Rightarrow> (string, string) CLI" where
  "rolled_back p = \<lparr>last_patch = None, last_rolled_back_patch = Some p, printed = [], calls = []\<rparr>"

definition missing_backup :: exn where
  "missing_backup = Exception ''BackupMissing'' ''no snapshot for a.txt''"

definition no_context :: exn where
  "no_context = Exception ''ValueError'' ''no files in context''"

text \<open>
  Sessions where one call fails: the rollback of an \<open>undo\<close> and the \<open>apply_patch\<close> of a
  \<open>redo\<close> raise for a missing backup; an instruction fails at message construction, or
  at apply; the interrupt arrives during the model call, or at the prompt.
\<close>

definition failing_undo :: "(string, string) collaborators" where
  "failing_undo = (answers ''undo'' [])\<lparr>rollback := \<lambda>_. Inl missing_backup\<rparr>"

definition failing_redo :: "(string, string) collaborators" where
  "failing_redo = (answers ''redo'' [])\<lparr>apply_patch := \<lambda>_. Inl missing_backup\<rparr>"

definition failing_messages :: "(string, string) collaborators" where
  "failing_messages =
     (answers ''add a test'' ''p2'')\<lparr>get_messages := \<lambda>_. Inl no_context\<rparr>"

definition failing_apply :: "(string, string) collaborators" where
  "failing_apply = (answers ''add a test'' ''p2'')\<lparr>apply_patch := \<lambda>_. Inl no_context\<rparr>"




definition interrupted_undo :: "(string, string) collaborators" where
  "interrupted_undo = (answers ''undo'' [])\<lparr>print_outcome := \<lambda>_. Inl KeyboardInterrupt\<rparr>"

definition interrupted_redo :: "(string, string) collaborators" where
  "interrupted_redo = (answers ''redo'' [])\<lparr>print_outcome := \<lambda>_. Inl KeyboardInterrupt\<rparr>"

subsection \<open>Trees without \<open>.git\<close>\<close>

text \<open>
  \<open>prune_git\<close> removes, at every depth below the root, each entry named \<open>.git\<close> with
  all that is beneath it; \<open>git_free\<close> says that a tree has no such entry.
\<close>

fun prune_git :: "node \<Rightarrow> node" where
  "prune_git (Dir dn children) =
     Dir dn (map prune_git (filter (\<lambda>c. name c \<noteq> ''.git'') children))"
| "prune_git nd = nd"

fun git_free :: "node \<Rightarrow> bool" where
  "git_free (Dir dn children) = list_all (\<lambda>c. name c \<noteq> ''.git'' \<and> git_free c) children"
| "git_free nd = True"

text \<open>
  Sample inputs: a matcher for patterns without wildcards, a project with a \<open>.git\<close>
  directory and a \<open>.git\<close> file, and a \<open>.git\<close> directory taken as the root.
\<close>

definition literal :: matcher where
  "literal nm pattern = (nm = pattern)"

definition head_file :: node where
  "head_file = File ''HEAD'' (Text [''ref: refs/heads/main'' @ [newline]])"

definition repo :: node where
  "repo =
     Dir ''repo''
       [File ''b.py'' (Text [''x = 1'' @ [newline]]),
        Dir ''.git'' [head_file],
        Dir ''src'' [File ''a.py'' (Text []), File ''.git'' (Text [''gitdir: ../x'' @ [newline]])],
        File ''build.log'' UnicodeDecodeError]"

definition git_dir :: node where
  "git_dir = Dir ''.git'' [head_file]"


section \<open>The history slots across a session\<close>

lemma print_simps [simp]:
  "last_patch (print l s) = last_patch s"
  "last_rolled_back_patch (print l s) = last_rolled_back_patch s"
  "calls (print l s) = calls s"
  "printed (print l s) = printed s @ [l]"
  by (simp_all add: print_def)

lemma called_simps [simp]:
  "last_patch (called c s) = last_patch s"
  "last_rolled_back_patch (called c s) = last_rolled_back_patch s"
  "calls (called c s) = calls s @ [c]"
  "printed (called c s) = printed s"
  by (simp_all add: called_def)

lemmas session_defs =
  answers_def failing_undo_def failing_redo_def failing_messages_def failing_apply_def

lemma eval_cmds:
  "lower (strip ''undo'') = ''undo''" "lower (strip ''redo'') = ''redo''"
  "lower (strip ''exit'') = ''exit''"
  by code_simp+

lemma eval_more:
  "free_text ''add a test''" "strip ''add a test'' = ''add a test''"
  by code_simp+

lemma body_undo:
  "input e = Inr line \<Longrightarrow> lower (strip line) = ''undo'' \<Longrightarrow> body e s = undo_command e s"
  by (simp add: body_def)

lemma body_redo:
  "input e = Inr line \<Longrightarrow> lower (strip line) = ''redo'' \<Longrightarrow> body e s = redo_command e s"
  by (simp add: body_def)

lemma body_instruction:
  "input e = Inr line \<Longrightarrow> free_text line \<Longrightarrow> body e s = instruction e (strip line) s"
  by (simp add: body_def free_text_def)

lemma iteration_slots:
  "last_patch (snd (iteration e s)) = last_patch (snd (body e s))
   \<and> last_rolled_back_patch (snd (iteration e s)) = last_rolled_back_patch (snd (body e s))"
  by (auto simp: iteration_def split: prod.splits flow.splits exn.splits)

lemma iteration_calls: "calls (snd (iteration e s)) = calls (snd (body e s))"
  by (auto simp: iteration_def split: prod.splits flow.splits exn.splits)

subsection \<open>Each branch keeps the slots apart\<close>

lemma undo_distinct: "slots_distinct s \<Longrightarrow> slots_distinct (snd (undo_command e s))"
  by (auto simp: undo_command_def slots_distinct_def Let_def
           split: option.splits sum.splits exn.splits)

lemma redo_distinct: "slots_distinct s \<Longrightarrow> slots_distinct (snd (redo_command e s))"
  by (auto simp: redo_command_def slots_distinct_def Let_def
           split: option.splits sum.splits exn.splits)

lemma select_distinct: "slots_distinct s \<Longrightarrow> slots_distinct (snd (select_command e s))"
  by (auto simp: select_command_def slots_distinct_def Let_def
           split: option.splits sum.splits exn.splits)

lemma instruction_distinct: "slots_distinct (snd (instruction e c s))"
  by (auto simp: instruction_def instruction_except_def slots_distinct_def Let_def
           split: option.splits sum.splits exn.splits)

lemma body_distinct: "slots_distinct s \<Longrightarrow> slots_distinct (snd (body e s))"
  by (simp add: body_def Let_def undo_distinct redo_distinct select_distinct
        instruction_distinct split: sum.splits)

lemma iteration_distinct: "slots_distinct s \<Longrightarrow> slots_distinct (snd (iteration e s))"
  using body_distinct[of s e] by (simp add: slots_distinct_def iteration_slots)

lemma loop_distinct: "slots_distinct s \<Longrightarrow> slots_distinct (snd (loop es s))"
proof (induction es arbitrary: s)
  case Nil
  then show ?case by simp
next
  case (Cons e es)
  from iteration_distinct[OF Cons.prems, of e] Cons.IH
  show ?case by (auto split: prod.splits flow.splits)
qed

lemma startup_block_slots:
  "last_patch (snd (startup_block st s)) = last_patch s \<and>
   last_rolled_back_patch (snd (startup_block st s)) = last_rolled_back_patch s"
  by (auto simp: startup_block_def startup_except_def Let_def split: sum.splits exn.splits)

lemma run_distinct:
  assumes d: "slots_distinct s"
  shows "slots_distinct (snd (run st es s))"
proof -
  let ?s2 = "print ''Select files to include in the context:''
               (print (newline # ''Starting diffdev...'') s)"
  obtain f s3 where r: "startup_block st ?s2 = (f, s3)"
    by (cases "startup_block st ?s2")
  from startup_block_slots[of st ?s2] r d have d3: "slots_distinct s3"
    by (simp add: slots_distinct_def)
  show ?thesis
    using r d3 loop_distinct[OF d3, of es] by (cases f) (simp_all add: run_def Let_def)
qed

lemma init_distinct: "slots_distinct CLI_init"
  by (simp add: slots_distinct_def CLI_init_def)

text \<open>
  C1. From the object as \<open>__init__\<close> leaves it, whatever the startup block and the
  passes of the loop do (any commands, any results of the collaborators, any number of
  passes), \<open>last_patch\<close> and \<open>last_rolled_back_patch\<close> are never both non-empty and equal.
\<close>

theorem history_slots_never_equal:
  "slots_distinct (snd (run st es CLI_init)) \<and> slots_distinct (snd (loop es CLI_init))"
  by (simp add: run_distinct loop_distinct init_distinct)

text \<open>An instruction that is applied, then \<open>undo\<close>: the patch sits in the redo slot alone.\<close>

theorem history_slots_never_equal_witness:
  "slots_distinct (snd (run (picks [''a.py''])
       [answers ''add a test'' ''p1'', answers ''undo'' ''''] CLI_init))
   \<and> slots_distinct (snd (loop [answers ''add a test'' ''p1'', answers ''undo'' ''''] CLI_init))
   \<and> last_rolled_back_patch
       (snd (loop [answers ''add a test'' ''p1'', answers ''undo'' ''''] CLI_init)) = Some ''p1''
   \<and> last_patch (snd (loop [answers ''add a test'' ''p1'', answers ''undo'' ''''] CLI_init)) = None"
proof -
  have "last_rolled_back_patch
          (snd (loop [answers ''add a test'' ''p1'', answers ''undo'' ''''] CLI_init)) = Some ''p1''"
    by code_simp
  moreover have
    "last_patch (snd (loop [answers ''add a test'' ''p1'', answers ''undo'' ''''] CLI_init)) = None"
    by code_simp
  ultimately show ?thesis
    using history_slots_never_equal
      [of "picks [''a.py'']" "[answers ''add a test'' ''p1'', answers ''undo'' '''']"]
    by simp
qed

section \<open>Instructions\<close>

lemma instruction_result_Inl:
  "instruction_result e c = Inl x \<Longrightarrow> last_patch (snd (instruction e c s)) = last_patch s"
  by (auto simp: instruction_result_def instruction_def instruction_except_def Let_def
           split: sum.splits exn.splits)

lemma instruction_result_Inr:
  "instruction_result e c = Inr p \<Longrightarrow>
     \<exists>m sp r. generate_patch e r = Inr p
       \<and> fst (instruction e c s) = Next
       \<and> last_patch (snd (instruction e c s)) = Some p
       \<and> calls (snd (instruction e c s)) =
           calls s @ [GetMessages c, GetSystemPrompt, SendPrompt m c sp, GeneratePatch r,
                      ApplyPatch p]"
  by (fastforce simp: instruction_result_def instruction_def Let_def split: sum.splits)

lemma instruction_clears_redo: "last_rolled_back_patch (snd (instruction e c s)) = None"
  by (auto simp: instruction_def instruction_except_def Let_def split: sum.splits exn.splits)

text \<open>
  C2. The claim fails on the code. A patch \<open>p1\<close> is applied and undone, so it waits in
  the redo slot. The next instruction fails at message construction: no patch was
  generated and none applied, \<open>last_patch\<close> is what it was, and yet the redo slot is empty
  afterwards, so that \<open>redo\<close> answers that there is nothing to redo. The same happens
  when the instruction fails at apply. The slot is emptied by the assignment that stands
  before the \<open>try\<close> of the branch; its comment speaks of new changes being made, and a
  failed instruction makes none.
\<close>

theorem failed_instruction_clears_redo_slot:
  "last_rolled_back_patch
     (snd (loop [answers ''add a test'' ''p1'', answers ''undo'' []] CLI_init)) = Some ''p1''
   \<and> instruction_result failing_messages (strip ''add a test'')
       = Inl (Exception ''ValueError'' ''no files in context'')
   \<and> last_rolled_back_patch
       (snd (loop [answers ''add a test'' ''p1'', answers ''undo'' [], failing_messages]
               CLI_init)) = None
   \<and> last_patch
       (snd (loop [answers ''add a test'' ''p1'', answers ''undo'' [], failing_messages]
               CLI_init)) = None
   \<and> calls (snd (iteration failing_messages (rolled_back ''p1''))) = [GetMessages ''add a test'']
   \<and> last (printed
       (snd (loop [answers ''add a test'' ''p1'', answers ''undo'' [], failing_messages,
                   answers ''redo'' []] CLI_init))) = ''No changes to redo.''
   \<and> last_rolled_back_patch
       (snd (loop [answers ''add a test'' ''p1'', answers ''undo'' [], failing_apply]
               CLI_init)) = None"
  by code_simp

text \<open>
  C7. When an instruction succeeds end to end, the handle \<open>p\<close> that \<open>generate_patch\<close>
  returned is the argument of the \<open>apply_patch\<close> call that follows it and is the new
  \<open>last_patch\<close>; when it fails, \<open>last_patch\<close> is what it was.
\<close>

theorem instruction_handle:
  assumes "input e = Inr line" and "free_text line"
  shows "(instruction_result e (strip line) = Inr p \<longrightarrow>
            fst (iteration e s) = Next
          \<and> last_patch (snd (iteration e s)) = Some p
          \<and> (\<exists>m sp r. generate_patch e r = Inr p
                \<and> calls (snd (iteration e s)) =
                    calls s @ [GetMessages (strip line), GetSystemPrompt,
                               SendPrompt m (strip line) sp, GeneratePatch r, ApplyPatch p]))
       \<and> (instruction_result e (strip line) = Inl x \<longrightarrow>
            last_patch (snd (iteration e s)) = last_patch s)"
proof (intro conjI impI)
  assume ok: "instruction_result e (strip line) = Inr p"
  have b: "body e s = instruction e (strip line) s"
    by (rule body_instruction[OF assms])
  from instruction_result_Inr[OF ok, of s] obtain m sp r where
    g: "generate_patch e r = Inr p" and
    f: "fst (instruction e (strip line) s) = Next" and
    l: "last_patch (snd (instruction e (strip line) s)) = Some p" and
    c: "calls (snd (instruction e (strip line) s)) =
          calls s @ [GetMessages (strip line), GetSystemPrompt,
                     SendPrompt m (strip line) sp, GeneratePatch r, ApplyPatch p]"
    by blast
  show "fst (iteration e s) = Next"
    using f by (cases "instruction e (strip line) s") (simp add: iteration_def b)
  show "last_patch (snd (iteration e s)) = Some p"
    using l by (simp add: iteration_slots b)
  show "\<exists>m sp r. generate_patch e r = Inr p
                \<and> calls (snd (iteration e s)) =
                    calls s @ [GetMessages (strip line), GetSystemPrompt,
                               SendPrompt m (strip line) sp, GeneratePatch r, ApplyPatch p]"
    using g c by (auto simp: iteration_calls b)
next
  assume "instruction_result e (strip line) = Inl x"
  then show "last_patch (snd (iteration e s)) = last_patch s"
    by (simp add: iteration_slots body_instruction[OF assms] instruction_result_Inl)
qed

theorem instruction_handle_witness:
  "fst (iteration (answers ''add a test'' ''p2'') (applied ''p1'')) = Next
   \<and> last_patch (snd (iteration (answers ''add a test'' ''p2'') (applied ''p1''))) = Some ''p2''
   \<and> last_patch (snd (iteration failing_apply (applied ''p1''))) = Some ''p1''"
proof -
  have ok: "instruction_result (answers ''add a test'' ''p2'') ''add a test'' = Inr ''p2''"
    by (simp add: instruction_result_def session_defs)
  have bad: "instruction_result failing_apply ''add a test'' = Inl no_context"
    by (simp add: instruction_result_def session_defs)
  show ?thesis
    using instruction_handle
        [of "answers ''add a test'' ''p2''" "''add a test''" "''p2''" "applied ''p1''"]
      instruction_handle
        [of failing_apply "''add a test''" _ "applied ''p1''" no_context] ok bad
    by (simp add: eval_more) (simp add: session_defs applied_def)
qed

section \<open>Undo and redo\<close>

lemma undo_tracked:
  assumes "input e = Inr line" and "lower (strip line) = ''undo''"
    and "last_patch s = Some p" and "p \<noteq> []"
  shows "(rollback e p = Inr u \<and> print_outcome e ''Changes rolled back successfully.'' = Inr v
            \<longrightarrow> fst (iteration e s) = Next
               \<and> last_rolled_back_patch (snd (iteration e s)) = Some p
               \<and> last_patch (snd (iteration e s)) = None)
       \<and> (rollback e p = Inr u \<and> print_outcome e ''Changes rolled back successfully.'' = Inl x
            \<longrightarrow> last_patch (snd (iteration e s)) = last_patch s
               \<and> last_rolled_back_patch (snd (iteration e s)) = last_rolled_back_patch s)
       \<and> (rollback e p = Inl x
            \<longrightarrow> last_patch (snd (iteration e s)) = last_patch s
               \<and> last_rolled_back_patch (snd (iteration e s)) = last_rolled_back_patch s)
       \<and> calls (snd (iteration e s)) = calls s @ [Rollback p]"
  using assms(3,4)
  by (auto simp: iteration_def body_undo[OF assms(1,2)] undo_command_def Let_def
           split: exn.splits sum.splits)

lemma redo_tracked:
  assumes "input e = Inr line" and "lower (strip line) = ''redo''"
    and "last_rolled_back_patch s = Some q" and "q \<noteq> []"
  shows "(apply_patch e q = Inr u \<and> print_outcome e ''Changes reapplied successfully.'' = Inr v
            \<longrightarrow> fst (iteration e s) = Next
               \<and> last_patch (snd (iteration e s)) = Some q
               \<and> last_rolled_back_patch (snd (iteration e s)) = None)
       \<and> (apply_patch e q = Inr u \<and> print_outcome e ''Changes reapplied successfully.'' = Inl x
            \<longrightarrow> last_patch (snd (iteration e s)) = last_patch s
               \<and> last_rolled_back_patch (snd (iteration e s)) = last_rolled_back_patch s)
       \<and> (apply_patch e q = Inl x
            \<longrightarrow> last_patch (snd (iteration e s)) = last_patch s
               \<and> last_rolled_back_patch (snd (iteration e s)) = last_rolled_back_patch s)
       \<and> calls (snd (iteration e s)) = calls s @ [ApplyPatch q]"
  using assms(3,4)
  by (auto simp: iteration_def body_redo[OF assms(1,2)] redo_command_def Let_def
           split: exn.splits sum.splits)

text \<open>
  C5. The claim fails on the code. With \<open>p1\<close> applied, the user types \<open>undo\<close>; the
  rollback of \<open>p1\<close> returns; the interrupt arrives while the message of success is
  printed. The assignments stand behind that \<open>print\<close>, so both slots stay as they were:
  \<open>last_patch\<close> still holds the patch that was rolled back and \<open>last_rolled_back_patch\<close>
  is empty. The loop goes on, and the next \<open>undo\<close> calls the rollback of \<open>p1\<close> a second
  time. The branch of an instruction assigns \<open>last_patch\<close> before it prints; here the
  order is the other way round. When the \<open>print\<close> returns, and when the rollback raises,
  the slots are as the claim says (\<open>undo_tracked\<close>).
\<close>

theorem undo_interrupted_keeps_slots:
  "rollback interrupted_undo ''p1'' = Inr ()
   \<and> iteration interrupted_undo (applied ''p1'')
       = (Next, print (newline # ''Operation cancelled.'')
                  (called (Rollback ''p1'') (applied ''p1'')))
   \<and> last_patch (snd (iteration interrupted_undo (applied ''p1''))) = Some ''p1''
   \<and> last_rolled_back_patch (snd (iteration interrupted_undo (applied ''p1''))) = None
   \<and> calls (snd (loop [interrupted_undo, answers ''undo'' []] (applied ''p1'')))
       = [Rollback ''p1'', Rollback ''p1'']
   \<and> last_rolled_back_patch (snd (iteration (answers ''undo'' []) (applied ''p1''))) = Some ''p1''
   \<and> last_patch (snd (iteration (answers ''undo'' []) (applied ''p1''))) = None"
  by code_simp

text \<open>
  C6. The claim fails on the code, in its last part. An \<open>undo\<close> with a tracked patch
  makes one call, the rollback of that patch, and a \<open>redo\<close> with a tracked rolled-back
  patch makes one call, \<open>apply_patch\<close> on that patch (\<open>undo_tracked\<close>, \<open>redo_tracked\<close>).
  But with \<open>p1\<close> rolled back, a \<open>redo\<close> whose \<open>apply_patch\<close> returns and whose message of
  success is interrupted leaves both slots as they were: \<open>last_patch\<close> is empty and
  \<open>p1\<close> is still in the redo slot, so the next \<open>redo\<close> applies \<open>p1\<close> a second time. It is
  the order of \<open>undo\<close>: the \<open>print\<close> first, the assignments behind it.
\<close>

theorem redo_interrupted_keeps_slots:
  "apply_patch interrupted_redo ''p1'' = Inr ()
   \<and> iteration interrupted_redo (rolled_back ''p1'')
       = (Next, print (newline # ''Operation cancelled.'')
                  (called (ApplyPatch ''p1'') (rolled_back ''p1'')))
   \<and> last_patch (snd (iteration interrupted_redo (rolled_back ''p1''))) = None
   \<and> last_rolled_back_patch (snd (iteration interrupted_redo (rolled_back ''p1''))) = Some ''p1''
   \<and> calls (snd (loop [interrupted_redo, answers ''redo'' []] (rolled_back ''p1'')))
       = [ApplyPatch ''p1'', ApplyPatch ''p1'']
   \<and> last_patch (snd (iteration (answers ''redo'' []) (rolled_back ''p1''))) = Some ''p1''
   \<and> last_rolled_back_patch (snd (iteration (answers ''redo'' []) (rolled_back ''p1''))) = None"
  by code_simp

subsection \<open>Which rollbacks a pass can call\<close>

lemma undo_new_calls:
  "\<exists>new. calls (snd (undo_command e s)) = calls s @ new
       \<and> (\<forall>p. Rollback p \<in> set new \<longrightarrow> last_patch s = Some p \<and> p \<noteq> [])"
  by (auto simp: undo_command_def Let_def split: option.splits sum.splits exn.splits)

lemma redo_new_calls:
  "\<exists>new. calls (snd (redo_command e s)) = calls s @ new
       \<and> (\<forall>p. Rollback p \<in> set new \<longrightarrow> last_patch s = Some p \<and> p \<noteq> [])"
  by (auto simp: redo_command_def Let_def split: option.splits sum.splits exn.splits)

lemma select_new_calls:
  "\<exists>new. calls (snd (select_command e s)) = calls s @ new
       \<and> (\<forall>p. Rollback p \<in> set new \<longrightarrow> last_patch s = Some p \<and> p \<noteq> [])"
  by (auto simp: select_command_def Let_def split: option.splits sum.splits exn.splits)

lemma instruction_new_calls:
  "\<exists>new. calls (snd (instruction e c s)) = calls s @ new
       \<and> (\<forall>p. Rollback p \<in> set new \<longrightarrow> last_patch s = Some p \<and> p \<noteq> [])"
  by (auto simp: instruction_def instruction_except_def Let_def
           split: option.splits sum.splits exn.splits)

lemma body_new_calls:
  "\<exists>new. calls (snd (body e s)) = calls s @ new
       \<and> (\<forall>p. Rollback p \<in> set new \<longrightarrow> last_patch s = Some p \<and> p \<noteq> [])"
  by (simp add: body_def Let_def undo_new_calls redo_new_calls select_new_calls
        instruction_new_calls split: sum.splits)

lemma iteration_new_calls:
  "Rollback p \<in> set (new_calls s (snd (iteration e s))) \<Longrightarrow> last_patch s = Some p \<and> p \<noteq> []"
  using body_new_calls[of e s] by (auto simp: new_calls_def iteration_calls)

text \<open>
  C4. In every pass of the loop, from any state, a rollback is called only on the patch
  that \<open>last_patch\<close> holds at that moment. An \<open>undo\<close> while \<open>last_patch\<close> is empty
  (\<open>None\<close> or the empty string) prints that there are no changes to undo and does nothing
  else: no call to any collaborator, so no rollback and no file written, and both slots
  as they were.
\<close>

theorem rollback_only_on_last_applied:
  "(Rollback p \<in> set (new_calls s (snd (iteration e s))) \<longrightarrow> last_patch s = Some p \<and> p \<noteq> [])
   \<and> (input e = Inr line \<and> lower (strip line) = ''undo'' \<and> \<not> truthy (last_patch s) \<longrightarrow>
        iteration e s = (Next, print ''No changes to undo.'' s)
      \<and> new_calls s (snd (iteration e s)) = []
      \<and> last_patch (snd (iteration e s)) = last_patch s
      \<and> last_rolled_back_patch (snd (iteration e s)) = last_rolled_back_patch s)"
proof -
  have a: "iteration e s = (Next, print ''No changes to undo.'' s)"
    if "input e = Inr line" "lower (strip line) = ''undo''" "\<not> truthy (last_patch s)"
    using that(3)
    by (cases "last_patch s")
       (simp_all add: iteration_def body_undo[OF that(1,2)] undo_command_def)
  show ?thesis
    using iteration_new_calls[of p s e] a by (auto simp: new_calls_def)
qed

theorem rollback_only_on_last_applied_witness:
  "Rollback ''p1''
     \<in> set (new_calls (applied ''p1'') (snd (iteration (answers ''undo'' '''') (applied ''p1''))))
   \<and> last_patch (applied ''p1'') = Some ''p1''
   \<and> iteration (answers ''undo'' '''') (rolled_back ''p1'')
        = (Next, print ''No changes to undo.'' (rolled_back ''p1''))
   \<and> new_calls (rolled_back ''p1'')
        (snd (iteration (answers ''undo'' '''') (rolled_back ''p1''))) = []"
proof -
  have "Rollback ''p1''
          \<in> set (new_calls (applied ''p1'')
                 (snd (iteration (answers ''undo'' '''') (applied ''p1''))))"
    by code_simp
  then show ?thesis
    using rollback_only_on_last_applied
        [of "''p1''" "applied ''p1''" "answers ''undo'' ''''" "''undo''"]
      rollback_only_on_last_applied
        [of "''p1''" "rolled_back ''p1''" "answers ''undo'' ''''" "''undo''"]
    by (simp add: session_defs applied_def rolled_back_def eval_cmds new_calls_def)
qed

section \<open>Exceptions at the loop\<close>

text \<open>
  C3, as the code has it. Every \<open>Exception\<close> that the rollback of an \<open>undo\<close> or the
  \<open>apply_patch\<close> of a \<open>redo\<close> raises, whatever its class (a missing backup and a failed
  restore included), is caught by the \<open>try\<close> of that branch: its message is printed, the
  slots stay as they were, and the loop goes on to the next command.
\<close>

theorem undo_redo_errors_recovered:
  assumes "input e = Inr line"
  shows "(lower (strip line) = ''undo'' \<and> last_patch s = Some p \<and> p \<noteq> []
            \<and> rollback e p = Inl (Exception c m) \<longrightarrow>
            iteration e s
              = (Next, print (''Error rolling back changes: '' @ m) (called (Rollback p) s))
          \<and> loop (e # es) s
              = loop es (print (''Error rolling back changes: '' @ m) (called (Rollback p) s)))
       \<and> (lower (strip line) = ''redo'' \<and> last_rolled_back_patch s = Some q \<and> q \<noteq> []
            \<and> apply_patch e q = Inl (Exception c m) \<longrightarrow>
            iteration e s
              = (Next, print (''Error reapplying changes: '' @ m) (called (ApplyPatch q) s))
          \<and> loop (e # es) s
              = loop es (print (''Error reapplying changes: '' @ m) (called (ApplyPatch q) s)))"
  using assms
  by (auto simp: iteration_def body_def undo_command_def redo_command_def Let_def)

theorem undo_redo_errors_recovered_witness:
  "iteration failing_undo (applied ''p1'')
     = (Next, print ''Error rolling back changes: no snapshot for a.txt''
                (called (Rollback ''p1'') (applied ''p1'')))
   \<and> iteration failing_redo (rolled_back ''p1'')
     = (Next, print ''Error reapplying changes: no snapshot for a.txt''
                (called (ApplyPatch ''p1'') (rolled_back ''p1'')))"
  using undo_redo_errors_recovered
      [of failing_undo "''undo''" "applied ''p1''" "''p1''"
         "''BackupMissing''" "''no snapshot for a.txt''" "[]"]
    undo_redo_errors_recovered
      [of failing_redo "''redo''" "rolled_back ''p1''" _
         "''BackupMissing''" "''no snapshot for a.txt''" "[]" "''p1''"]
  by (simp add: session_defs applied_def rolled_back_def eval_cmds missing_backup_def)

text \<open>
  C3 as it is written fails. With \<open>p1\<close> applied, an \<open>undo\<close> whose rollback raises
  \<open>BackupMissing\<close> does not end the session: the loop is still running after it, the
  error was printed, and the next \<open>undo\<close> is accepted and calls the rollback of \<open>p1\<close>
  again.
\<close>

theorem backup_missing_ends_session_counterexample:
  "rollback failing_undo ''p1'' = Inl (Exception ''BackupMissing'' ''no snapshot for a.txt'')
   \<and> fst (loop [failing_undo, answers ''undo'' []] (applied ''p1'')) = Next
   \<and> printed (snd (loop [failing_undo, answers ''undo'' []] (applied ''p1'')))
       = [''Error rolling back changes: no snapshot for a.txt'',
          ''Changes rolled back successfully.'']
   \<and> calls (snd (loop [failing_undo, answers ''undo'' []] (applied ''p1'')))
       = [Rollback ''p1'', Rollback ''p1'']"
  by code_simp










section \<open>The patterns of a \<open>.gitignore\<close>\<close>

lemma strip_blank: "list_all isspace line \<Longrightarrow> strip line = []"
proof -
  assume "list_all isspace line"
  then have dw: "dropWhile isspace line = []" by (induction line) simp_all
  show ?thesis by (simp only: strip_def dw rev.simps dropWhile.simps)
qed

lemma strip_comment: "startswith line ''#'' \<Longrightarrow> startswith (strip line) ''#''"
proof -
  assume "startswith line ''#''"
  then obtain rest where l: "line = CHR ''#'' # rest"
    by (cases line) (simp_all add: startswith_def)
  have ns: "\<not> isspace CHR ''#''" by (simp add: isspace_def)
  have "dropWhile isspace (rev rest @ [CHR ''#'']) = dropWhile isspace (rev rest) @ [CHR ''#'']
        \<or> dropWhile isspace (rev rest @ [CHR ''#'']) = [CHR ''#'']"
    using ns by (simp add: dropWhile_append)
  then show ?thesis
    using ns by (auto simp: l strip_def startswith_def)
qed

lemma load_patterns_skips:
  assumes "list_all isspace line \<or> startswith line ''#''"
  shows "load_patterns (Lines (before @ line # after)) self
         = load_patterns (Lines (before @ after)) self"
  using assms strip_blank[of line] strip_comment[of line]
  by (auto simp: load_patterns_def Let_def)

lemma load_patterns_all:
  assumes "list_all (\<lambda>p. p \<noteq> [] \<and> \<not> startswith p ''#'') (patterns self)"
  shows "list_all (\<lambda>p. p \<noteq> [] \<and> \<not> startswith p ''#'') (patterns (load_patterns gitignore self))"
proof (cases gitignore)
  case Absent
  then show ?thesis using assms by (simp add: load_patterns_def)
next
  case (Lines ls)
  define step :: "string \<Rightarrow> GitignoreParser \<Rightarrow> GitignoreParser" where "step = (\<lambda>line self.
      (let line = strip line in
       if line \<noteq> [] \<and> \<not> startswith line ''#''
       then self\<lparr>patterns := patterns self @ [line]\<rparr>
       else self))"
  have "list_all (\<lambda>p. p \<noteq> [] \<and> \<not> startswith p ''#'') (patterns (fold step ls self))"
    using assms
  proof (induction ls arbitrary: self)
    case Nil
    then show ?case by simp
  next
    case (Cons l ls)
    have "list_all (\<lambda>p. p \<noteq> [] \<and> \<not> startswith p ''#'') (patterns (step l self))"
      using Cons.prems by (simp add: step_def Let_def)
    from Cons.IH[OF this] show ?case by simp
  qed
  then show ?thesis using Lines by (simp add: load_patterns_def step_def)
qed

lemma init_patterns_all:
  "\<forall>p \<in> set (patterns (GitignoreParser_init gitignore)). p \<noteq> [] \<and> \<not> startswith p ''#''"
proof -
  have "list_all (\<lambda>p. p \<noteq> [] \<and> \<not> startswith p ''#'') (patterns (GitignoreParser_init gitignore))"
    unfolding GitignoreParser_init_def by (rule load_patterns_all) simp
  then show ?thesis by (simp only: list_all_iff)
qed

text \<open>
  C9. A line of the \<open>.gitignore\<close> file that is blank (nothing but white space) or that
  starts with \<open>#\<close> is never a pattern: the parser is the same with the line as without
  it, wherever the line stands; and no pattern that is loaded is empty or starts with
  \<open>#\<close>. When the file does not exist no pattern is loaded, and \<open>should_ignore\<close> is false
  for every path, whatever the matcher.
\<close>

theorem gitignore_comments_and_blanks:
  "(list_all isspace line \<or> startswith line ''#'' \<longrightarrow>
      GitignoreParser_init (Lines (before @ line # after)) = GitignoreParser_init (Lines (before @ after)))
   \<and> (\<forall>p \<in> set (patterns (GitignoreParser_init gitignore)). p \<noteq> [] \<and> \<not> startswith p ''#'')
   \<and> patterns (GitignoreParser_init Absent) = []
   \<and> should_ignore fnmatch (GitignoreParser_init Absent) path = False"
proof -
  have "patterns (GitignoreParser_init Absent) = []"
    by (simp add: GitignoreParser_init_def load_patterns_def)
  then show ?thesis
    by (simp add: init_patterns_all should_ignore_def)
       (simp add: GitignoreParser_init_def load_patterns_skips)
qed

text \<open>
  A comment line and a blank line between two patterns change nothing; a missing file
  ignores nothing.
\<close>

theorem gitignore_comments_and_blanks_witness:
  "GitignoreParser_init (Lines [''*.pyc'' @ [newline], ''# build output'' @ [newline], ''build/'' @ [newline]])
     = GitignoreParser_init (Lines [''*.pyc'' @ [newline], ''build/'' @ [newline]])
   \<and> GitignoreParser_init (Lines [''*.pyc'' @ [newline], '' '' @ [newline], ''build/'' @ [newline]])
     = GitignoreParser_init (Lines [''*.pyc'' @ [newline], ''build/'' @ [newline]])
   \<and> patterns (GitignoreParser_init (Lines [''*.pyc'' @ [newline], ''build/'' @ [newline]]))
     = [''*.pyc'', ''build/'']
   \<and> patterns (GitignoreParser_init Absent) = []
   \<and> should_ignore literal (GitignoreParser_init Absent) ''src/a.py'' = False"
proof -
  have comment: "startswith (''# build output'' @ [newline]) ''#''"
    by (simp add: startswith_def)
  have blank: "list_all isspace ('' '' @ [newline])"
    by code_simp
  have pats:
    "patterns (GitignoreParser_init (Lines [''*.pyc'' @ [newline], ''build/'' @ [newline]]))
       = [''*.pyc'', ''build/'']"
    by code_simp
  note c = gitignore_comments_and_blanks
      [of "''# build output'' @ [newline]" "[''*.pyc'' @ [newline]]" "[''build/'' @ [newline]]"
        Absent literal "''src/a.py''"]
  note b = gitignore_comments_and_blanks
      [of "'' '' @ [newline]" "[''*.pyc'' @ [newline]]" "[''build/'' @ [newline]]"
        Absent literal "''src/a.py''"]
  have 1:
    "GitignoreParser_init (Lines ([''*.pyc'' @ [newline]] @ (''# build output'' @ [newline]) # [''build/'' @ [newline]]))
     = GitignoreParser_init (Lines ([''*.pyc'' @ [newline]] @ [''build/'' @ [newline]]))"
    by (rule c[THEN conjunct1, THEN mp, OF disjI2, OF comment])
  have 2:
    "GitignoreParser_init (Lines ([''*.pyc'' @ [newline]] @ ('' '' @ [newline]) # [''build/'' @ [newline]]))
     = GitignoreParser_init (Lines ([''*.pyc'' @ [newline]] @ [''build/'' @ [newline]]))"
    by (rule b[THEN conjunct1, THEN mp, OF disjI1, OF blank])
  have 3: "patterns (GitignoreParser_init Absent) = []"
    by (rule c[THEN conjunct2, THEN conjunct2, THEN conjunct1])
  have 4: "should_ignore literal (GitignoreParser_init Absent) ''src/a.py'' = False"
    by (rule c[THEN conjunct2, THEN conjunct2, THEN conjunct2])
  have l1: "[''*.pyc'' @ [newline]] @ (''# build output'' @ [newline]) # [''build/'' @ [newline]]
            = [''*.pyc'' @ [newline], ''# build output'' @ [newline], ''build/'' @ [newline]]"
    and l2: "[''*.pyc'' @ [newline]] @ ('' '' @ [newline]) # [''build/'' @ [newline]]
            = [''*.pyc'' @ [newline], '' '' @ [newline], ''build/'' @ [newline]]"
    and l3: "[''*.pyc'' @ [newline]] @ [''build/'' @ [newline]]
            = [''*.pyc'' @ [newline], ''build/'' @ [newline]]"
    by simp_all
  show ?thesis
    by (intro conjI) (rule 1[unfolded l1 l3] 2[unfolded l2 l3] pats 3 4)+
qed

section \<open>The tree and \<open>.git\<close>\<close>

lemma name_prune_git [simp]: "name (prune_git x) = name x"
  by (cases x) simp_all

lemma is_dir_prune_git [simp]: "is_dir (prune_git x) = is_dir x"
  by (cases x) simp_all

lemma case_file_prune_git:
  "(case prune_git x of File n r \<Rightarrow> f n r | _ \<Rightarrow> d) = (case x of File n r \<Rightarrow> f n r | _ \<Rightarrow> d)"
  by (cases x) simp_all

lemma insort_key_map_same:
  "(\<And>x. k (g x) = k x) \<Longrightarrow> insort_key k (g x) (map g ys) = map g (insort_key k x ys)"
  by (induction ys) simp_all

lemma sort_key_map_same:
  "(\<And>x. k (g x) = k x) \<Longrightarrow> sort_key k (map g xs) = map g (sort_key k xs)"
  by (induction xs) (simp_all add: insort_key_map_same)

lemma sort_entries_prune_git:
  "sort_entries (map prune_git xs) = map prune_git (sort_entries xs)"
  unfolding sort_entries_def by (rule sort_key_map_same) simp

lemma sort_entries_filter: "sort_entries (filter P xs) = filter P (sort_entries xs)"
  by (simp add: sort_entries_def filter_sort)

lemma kept_entries_prune_git:
  "filter (\<lambda>e. \<not> should_skip fm self dir (name e))
     (sort_entries (map prune_git (filter (\<lambda>c. name c \<noteq> ''.git'') children)))
   = map prune_git (filter (\<lambda>e. \<not> should_skip fm self dir (name e)) (sort_entries children))"
proof -
  have "filter (\<lambda>e. \<not> should_skip fm self dir (name e)) (filter (\<lambda>c. name c \<noteq> ''.git'') xs)
        = filter (\<lambda>e. \<not> should_skip fm self dir (name e)) xs" for xs
    by (induction xs) (auto simp: should_skip_def)
  then show ?thesis
    by (simp add: sort_entries_prune_git sort_entries_filter filter_map comp_def)
qed

lemma fold_enumerate_map:
  "(\<And>i x s. x \<in> set xs \<Longrightarrow> f (i, g x) s = f' (i, x) s)
     \<Longrightarrow> fold f (enumerate n (map g xs)) s = fold f' (enumerate n xs) s"
  by (induction xs arbitrary: n s) simp_all

lemma generate_tree_prune_git:
  "generate_tree fm self dir (prune_git nd) prefix = generate_tree fm self dir nd prefix"
proof (induction nd arbitrary: self dir prefix)
  case (Dir dn children)
  let ?kept = "filter (\<lambda>e. \<not> should_skip fm self dir (name e)) (sort_entries children)"
  have sub: "x \<in> set children" if "x \<in> set ?kept" for x
    using that by (simp add: sort_entries_def)
  show ?case
    unfolding prune_git.simps generate_tree.simps Let_def kept_entries_prune_git
  proof (rule fold_enumerate_map, goal_cases)
    case (1 i x s)
    have ih: "generate_tree fm self' dir' (prune_git x) prefix'
              = generate_tree fm self' dir' x prefix'" for self' dir' prefix'
      by (rule Dir.IH[OF sub[OF 1]])
    show ?case
      unfolding prod.case ih name_prune_git is_dir_prune_git case_file_prune_git length_map
      by (rule refl)
  qed
qed simp_all


lemma git_free_prune_git: "git_free (prune_git nd)"
  by (induction nd) (simp_all add: list_all_iff)

text \<open>
  C10, as the code has it. For every directory tree, every generator (any patterns, or no
  parser at all) and every matcher, \<open>get_tree\<close> gives the same text, and leaves the same
  tree listing and file-contents block, as on the tree from which every entry named
  \<open>.git\<close> below the root has been removed with all that is beneath it; and that tree
  has no entry named \<open>.git\<close>. So no such entry, and nothing beneath one, reaches the
  output. The root directory itself is never an entry and is not checked.
\<close>

theorem get_tree_ignores_git:
  "get_tree fm self (prune_git on_disk) = get_tree fm self on_disk \<and> git_free (prune_git on_disk)"
  by (simp add: get_tree_def generate_tree_prune_git git_free_prune_git)

text \<open>
  A project with a \<open>.git\<close> directory at the top and a \<open>.git\<close> file in \<open>src\<close>, and no
  parser: neither is listed.
\<close>

theorem get_tree_ignores_git_witness:
  "get_tree literal (ProjectTreeGenerator_init [''repo''] None) (prune_git repo)
     = get_tree literal (ProjectTreeGenerator_init [''repo''] None) repo
   \<and> git_free (prune_git repo)
   \<and> prune_git repo
     = Dir ''repo'' [File ''b.py'' (Text [''x = 1'' @ [newline]]), Dir ''src'' [File ''a.py'' (Text [])],
                     File ''build.log'' UnicodeDecodeError]
   \<and> output_lines (snd (get_tree literal (ProjectTreeGenerator_init [''repo''] None) repo))
     = [branch (ProjectTreeGenerator_init [''repo''] None) @ ''src'',
        pipe (ProjectTreeGenerator_init [''repo''] None)
          @ last_branch (ProjectTreeGenerator_init [''repo''] None) @ ''a.py'',
        branch (ProjectTreeGenerator_init [''repo''] None) @ ''b.py'',
        last_branch (ProjectTreeGenerator_init [''repo''] None) @ ''build.log'']"
proof -
  have a: "prune_git repo
     = Dir ''repo'' [File ''b.py'' (Text [''x = 1'' @ [newline]]), Dir ''src'' [File ''a.py'' (Text [])],
                     File ''build.log'' UnicodeDecodeError]"
    by code_simp
  have b: "output_lines (snd (get_tree literal (ProjectTreeGenerator_init [''repo''] None) repo))
     = [branch (ProjectTreeGenerator_init [''repo''] None) @ ''src'',
        pipe (ProjectTreeGenerator_init [''repo''] None)
          @ last_branch (ProjectTreeGenerator_init [''repo''] None) @ ''a.py'',
        branch (ProjectTreeGenerator_init [''repo''] None) @ ''b.py'',
        last_branch (ProjectTreeGenerator_init [''repo''] None) @ ''build.log'']"
    by code_simp
  note t = get_tree_ignores_git [of literal "ProjectTreeGenerator_init [''repo''] None" repo]
  from t have c: "get_tree literal (ProjectTreeGenerator_init [''repo''] None) (prune_git repo)
     = get_tree literal (ProjectTreeGenerator_init [''repo''] None) repo"
    by (rule conjunct1)
  from t have d: "git_free (prune_git repo)"
    by (rule conjunct2)
  show ?thesis
    by (intro conjI) (rule c d a b)+
qed

text \<open>
  C10 as it is written fails when the root is itself a directory named \<open>.git\<close>
  (\<open>--copydir .git\<close>): \<open>should_skip\<close> is asked about the entries of a directory, never
  about the root, so the contents of that \<open>.git\<close> directory are listed, and the text of
  its file \<open>HEAD\<close> is in the file-contents block.
\<close>

theorem git_root_listed_counterexample:
  "last (root_path (ProjectTreeGenerator_init [''repo'', ''.git''] None)) = ''.git''
   \<and> file_contents (snd (get_tree literal (ProjectTreeGenerator_init [''repo'', ''.git''] None) git_dir))
       = [format_file_content ''/repo/.git/HEAD'' (Text [''ref: refs/heads/main'' @ [newline]])]
   \<and> output_lines (snd (get_tree literal (ProjectTreeGenerator_init [''repo'', ''.git''] None) git_dir))
       = [last_branch (ProjectTreeGenerator_init [''repo'', ''.git''] None) @ ''HEAD'']
   \<and> fst (get_tree literal (ProjectTreeGenerator_init [''repo'', ''.git''] None) git_dir)
       = join [newline]
           [newline # ''File Tree:'',
            last_branch (ProjectTreeGenerator_init [''repo'', ''.git''] None) @ ''HEAD'',
            newline # ''File Contents:'',
            format_file_content ''/repo/.git/HEAD'' (Text [''ref: refs/heads/main'' @ [newline]])]"
proof -
  have a: "last (root_path (ProjectTreeGenerator_init [''repo'', ''.git''] None)) = ''.git''"
    by (simp add: ProjectTreeGenerator_init_def)
  have b: "file_contents (snd (get_tree literal (ProjectTreeGenerator_init [''repo'', ''.git''] None) git_dir))
       = [format_file_content ''/repo/.git/HEAD'' (Text [''ref: refs/heads/main'' @ [newline]])]"
    by code_simp
  have c: "output_lines (snd (get_tree literal (ProjectTreeGenerator_init [''repo'', ''.git''] None) git_dir))
       = [last_branch (ProjectTreeGenerator_init [''repo'', ''.git''] None) @ ''HEAD'']"
    by code_simp
  have d: "fst (get_tree literal (ProjectTreeGenerator_init [''repo'', ''.git''] None) git_dir)
       = join [newline]
           [newline # ''File Tree:'',
            last_branch (ProjectTreeGenerator_init [''repo'', ''.git''] None) @ ''HEAD'',
            newline # ''File Contents:'',
            format_file_content ''/repo/.git/HEAD'' (Text [''ref: refs/heads/main'' @ [newline]])]"
    by code_simp
  show ?thesis
    by (intro conjI) (rule a b c d)+
qed

end
